theory Spec2Isabelle
  imports Main
begin

section \<open>Identifiers (bson.ObjectId)\<close>

text \<open>
  An ObjectId is the byte string it wraps; two are equal when their bytes are. A
  generated one has 12 bytes. \<open>str(oid)\<close> is the lower-case hexadecimal rendering
  of the bytes, two digits each.

  \<open>ObjectId(s)\<close> for a string \<open>s\<close> requires \<open>len(s) == 24\<close> and takes the bytes
  \<open>bytes.fromhex(s)\<close>, raising \<open>InvalidId\<close> when either fails.
  \<open>bytes.fromhex\<close> reads two adjacent hexadecimal digits (either case) per byte and
  skips ASCII whitespace before a byte, so a 24-character string with whitespace in it
  is accepted and gives fewer than 12 bytes. \<open>ObjectId.is_valid(s)\<close> is "the
  constructor does not raise".
\<close>

datatype object_id = OID "nat list"

definition hex_digit :: "nat \<Rightarrow> char" where
  "hex_digit d = ''0123456789abcdef'' ! (d mod 16)"

definition hex_byte :: "nat \<Rightarrow> string" where
  "hex_byte b = [hex_digit (b div 16), hex_digit b]"

definition str_oid :: "object_id \<Rightarrow> string" where
  "str_oid oid = (case oid of OID bs \<Rightarrow> concat (map hex_byte bs))"

text \<open>The \<open>k\<close> low-order bytes of a number, most significant first.\<close>

fun be_bytes :: "nat \<Rightarrow> nat \<Rightarrow> nat list" where
  "be_bytes 0 n = []"
| "be_bytes (Suc k) n = be_bytes k (n div 256) @ [n mod 256]"

text \<open>The \<open>n\<close>-th identifier the generator hands out.\<close>

definition generated_oid :: "nat \<Rightarrow> object_id" where
  "generated_oid n = OID (be_bytes 12 n)"

definition hex_val :: "char \<Rightarrow> nat option" where
  "hex_val c =
     (let k = (of_char c :: nat) in
      if 48 \<le> k \<and> k \<le> 57 then Some (k - 48)
      else if 97 \<le> k \<and> k \<le> 102 then Some (k - 87)
      else if 65 \<le> k \<and> k \<le> 70 then Some (k - 55)
      else None)"

text \<open>ASCII whitespace: tab, line feed, vertical tab, form feed, carriage return, space.\<close>

definition is_space :: "char \<Rightarrow> bool" where
  "is_space c = (let k = (of_char c :: nat) in (9 \<le> k \<and> k \<le> 13) \<or> k = 32)"

fun fromhex :: "string \<Rightarrow> nat list option" where
  "fromhex [] = Some []"
| "fromhex [c] = (if is_space c then Some [] else None)"
| "fromhex (c # d # cs) =
     (if is_space c then fromhex (d # cs)
      else (case hex_val c of
              None \<Rightarrow> None
            | Some hi \<Rightarrow>
               (case hex_val d of
                  None \<Rightarrow> None
                | Some lo \<Rightarrow> map_option ((#) (16 * hi + lo)) (fromhex cs))))"

definition ObjectId :: "string \<Rightarrow> object_id option" where
  "ObjectId s = (if length s = 24 then map_option OID (fromhex s) else None)"

definition is_valid :: "string \<Rightarrow> bool" where
  "is_valid s = (ObjectId s \<noteq> None)"

text \<open>
  The integers the store holds are signed and 8 bytes wide. The driver raises
  \<open>OverflowError\<close> when it is to encode a Python integer outside that range, and the
  server rejects an \<open>$inc\<close> whose result would leave it.
\<close>

definition int64 :: "int \<Rightarrow> bool" where
  "int64 x = (- (2 ^ 63) \<le> x \<and> x < 2 ^ 63)"

section \<open>Entity schemas (schemas.py)\<close>

type_synonym datetime = nat

record NGO =
  name :: string
  registration_id :: string
  category :: string
  ngo_city :: "string option"
  ngo_state :: "string option"
  verified :: bool

record Campaign =
  title :: string
  ngo_id :: string
  domain :: string
  goal_inr :: int
  raised_inr :: int
  description :: "string option"
  city :: "string option"
  state :: "string option"
  milestones :: "string list option"

record Donation =
  campaign_id :: string
  donor_name :: "string option"
  amount_inr :: int
  payment_method :: string

record Transaction =
  donation_id :: string
  tx_hash :: string
  status :: string

record Receipt =
  receipt_donation_id :: string
  receipt_nft_id :: "string option"
  issued_at :: "datetime option"

text \<open>
  The request body \<open>DonationIn\<close> of main.py has the four fields of \<open>Donation\<close>
  with the same types and no \<open>ge=1\<close> constraint on \<open>amount_inr\<close>.
\<close>

type_synonym DonationIn = Donation

text \<open>
  What can leave a handler instead of a result: an \<open>HTTPException\<close> with its status code
  and detail, the rejection of a request body by the framework (status 422), and the
  exceptions the handlers do not catch.
\<close>

datatype exn =
    HTTPException nat string
  | RequestValidationError
  | ValidationError
  | TypeError
  | OverflowError
  | WriteError

text \<open>
  The status the caller sees: an \<open>HTTPException\<close> carries its own, a rejected request
  body is answered with 422, and an exception that escapes a handler is answered with
  500 (Internal Server Error).
\<close>

definition status_code :: "exn \<Rightarrow> nat" where
  "status_code e =
     (case e of
        HTTPException c d \<Rightarrow> c
      | RequestValidationError \<Rightarrow> 422
      | ValidationError \<Rightarrow> 500
      | TypeError \<Rightarrow> 500
      | OverflowError \<Rightarrow> 500
      | WriteError \<Rightarrow> 500)"

definition is_4xx :: "nat \<Rightarrow> bool" where
  "is_4xx c = (400 \<le> c \<and> c < 500)"

text \<open>Field constraints: \<open>goal_inr\<close> has \<open>ge=1\<close>, \<open>raised_inr\<close> has \<open>ge=0\<close>.\<close>

definition Campaign_valid :: "Campaign \<Rightarrow> bool" where
  "Campaign_valid c = (1 \<le> goal_inr c \<and> 0 \<le> raised_inr c)"

text \<open>
  The constructor call \<open>Donation(campaign_id=..., donor_name=..., amount_inr=...,
  payment_method=...)\<close>: \<open>amount_inr\<close> has \<open>ge=1\<close>, and a violation raises
  pydantic's \<open>ValidationError\<close>.
\<close>

definition new_Donation :: "string \<Rightarrow> string option \<Rightarrow> int \<Rightarrow> string \<Rightarrow> exn + Donation" where
  "new_Donation cid dn amt pm =
     (if 1 \<le> amt
      then Inr \<lparr>campaign_id = cid, donor_name = dn, amount_inr = amt, payment_method = pm\<rparr>
      else Inl ValidationError)"

section \<open>The document store\<close>

text \<open>
  A stored document is the entity's fields together with its \<open>_id\<close>. A campaign
  document also has the \<open>updated_at\<close> field that \<open>create_donation\<close> sets.
  A collection is the list of its documents in insertion order.
\<close>

record ngo_doc = NGO +
  ngo_oid :: object_id

record campaign_doc = Campaign +
  campaign_oid :: object_id
  updated_at :: "datetime option"

record donation_doc = Donation +
  donation_oid :: object_id

record transaction_doc = Transaction +
  transaction_oid :: object_id

record receipt_doc = Receipt +
  receipt_oid :: object_id

text \<open>
  \<open>next_oid\<close> is the state of the ObjectId generator: every \<open>ObjectId()\<close> call,
  by the handler or by the driver on an insert without \<open>_id\<close>, yields a fresh value.
\<close>

record db =
  ngo :: "ngo_doc list"
  campaign :: "campaign_doc list"
  donation :: "donation_doc list"
  transaction :: "transaction_doc list"
  receipt :: "receipt_doc list"
  next_oid :: nat

definition empty_db :: db where
  "empty_db = \<lparr>ngo = [], campaign = [], donation = [], transaction = [], receipt = [], next_oid = 0\<rparr>"

definition new_ObjectId :: "db \<Rightarrow> object_id \<times> db" where
  "new_ObjectId s = (generated_oid (next_oid s), s\<lparr>next_oid := Suc (next_oid s)\<rparr>)"

subsection \<open>Driver operations used by main.py\<close>

text \<open>
  \<open>insert_one\<close> gives the document a generated \<open>_id\<close> and appends it to the
  collection. A document with an integer field outside the 8-byte range cannot be
  encoded: the call raises \<open>OverflowError\<close> and nothing is inserted. Campaigns and
  donations are the documents with integer fields.
\<close>

definition insert_one_ngo :: "NGO \<Rightarrow> db \<Rightarrow> object_id \<times> db" where
  "insert_one_ngo n s =
     (let (i, s1) = new_ObjectId s
      in (i, s1\<lparr>ngo := ngo s1 @ [NGO.extend n (ngo_doc.fields i)]\<rparr>))"

definition insert_one_campaign :: "Campaign \<Rightarrow> db \<Rightarrow> exn + object_id \<times> db" where
  "insert_one_campaign c s =
     (if int64 (goal_inr c) \<and> int64 (raised_inr c) then
        (let (i, s1) = new_ObjectId s
         in Inr (i, s1\<lparr>campaign :=
                        campaign s1 @ [Campaign.extend c (campaign_doc.fields i None)]\<rparr>))
      else Inl OverflowError)"

definition insert_one_donation :: "Donation \<Rightarrow> db \<Rightarrow> exn + object_id \<times> db" where
  "insert_one_donation d s =
     (if int64 (amount_inr d) then
        (let (i, s1) = new_ObjectId s
         in Inr (i, s1\<lparr>donation := donation s1 @ [Donation.extend d (donation_doc.fields i)]\<rparr>))
      else Inl OverflowError)"

definition insert_one_transaction :: "Transaction \<Rightarrow> db \<Rightarrow> object_id \<times> db" where
  "insert_one_transaction t s =
     (let (i, s1) = new_ObjectId s
      in (i, s1\<lparr>transaction := transaction s1 @ [Transaction.extend t (transaction_doc.fields i)]\<rparr>))"

definition insert_one_receipt :: "Receipt \<Rightarrow> db \<Rightarrow> object_id \<times> db" where
  "insert_one_receipt r s =
     (let (i, s1) = new_ObjectId s
      in (i, s1\<lparr>receipt := receipt s1 @ [Receipt.extend r (receipt_doc.fields i)]\<rparr>))"

text \<open>\<open>insert_many\<close>: the documents in order; an encoding failure leaves all of them out.\<close>

fun insert_many_campaign :: "Campaign list \<Rightarrow> db \<Rightarrow> exn + db" where
  "insert_many_campaign [] s = Inr s"
| "insert_many_campaign (c # cs) s =
     (case insert_one_campaign c s of
        Inl err \<Rightarrow> Inl err
      | Inr (i, s1) \<Rightarrow> insert_many_campaign cs s1)"

text \<open>\<open>find_one({"_id": oid})\<close>: the first document with that \<open>_id\<close>, or \<open>None\<close>.\<close>

definition find_one_ngo :: "object_id \<Rightarrow> db \<Rightarrow> ngo_doc option" where
  "find_one_ngo i s = find (\<lambda>x. ngo_oid x = i) (ngo s)"

definition find_one_campaign :: "object_id \<Rightarrow> db \<Rightarrow> campaign_doc option" where
  "find_one_campaign i s = find (\<lambda>x. campaign_oid x = i) (campaign s)"

text \<open>
  \<open>update_one({"_id": oid}, {"$inc": {"raised_inr": amt}, "$set": {"updated_at": now}})\<close>:
  the first document with that \<open>_id\<close> is updated, the others are left as they are,
  and nothing happens when there is none. An amount outside the 8-byte range cannot be
  encoded (\<open>OverflowError\<close>), and the server refuses an increment whose result would
  leave that range (a write error); the document is then unchanged.
\<close>

fun update_first :: "('a \<Rightarrow> bool) \<Rightarrow> ('a \<Rightarrow> 'a) \<Rightarrow> 'a list \<Rightarrow> 'a list" where
  "update_first P f [] = []"
| "update_first P f (x # xs) = (if P x then f x # xs else x # update_first P f xs)"

definition update_one_campaign :: "object_id \<Rightarrow> int \<Rightarrow> datetime \<Rightarrow> db \<Rightarrow> exn + db" where
  "update_one_campaign i amt now s =
     (if \<not> int64 amt then Inl OverflowError
      else (case find (\<lambda>x. campaign_oid x = i) (campaign s) of
              None \<Rightarrow> Inr s
            | Some c \<Rightarrow>
               (if int64 (raised_inr c + amt) then
                  Inr (s\<lparr>campaign :=
                          update_first (\<lambda>x. campaign_oid x = i)
                            (\<lambda>x. x\<lparr>raised_inr := raised_inr x + amt, updated_at := Some now\<rparr>)
                            (campaign s)\<rparr>)
                else Inl WriteError)))"

subsection \<open>Record access layer (database.py)\<close>

text \<open>
  Modelled from the spec: \<open>create_document\<close> and \<open>get_documents\<close> of database.py,
  which main.py imports and the source tree does not contain. \<open>create_document\<close>
  serialises the entity's fields, makes one insert into the named collection and returns
  the newly assigned identifier as a string; \<open>get_documents\<close> returns the documents of
  the collection that match an equality filter (all of them for the empty filter) in
  storage order, which is insertion order. An exception of the insert propagates.
\<close>

definition create_document_ngo :: "NGO \<Rightarrow> db \<Rightarrow> string \<times> db" where
  "create_document_ngo n s = (let (i, s1) = insert_one_ngo n s in (str_oid i, s1))"

definition create_document_campaign :: "Campaign \<Rightarrow> db \<Rightarrow> exn + string \<times> db" where
  "create_document_campaign c s =
     (case insert_one_campaign c s of
        Inl err \<Rightarrow> Inl err
      | Inr (i, s1) \<Rightarrow> Inr (str_oid i, s1))"

definition create_document_donation :: "Donation \<Rightarrow> db \<Rightarrow> exn + string \<times> db" where
  "create_document_donation d s =
     (case insert_one_donation d s of
        Inl err \<Rightarrow> Inl err
      | Inr (i, s1) \<Rightarrow> Inr (str_oid i, s1))"

definition create_document_transaction :: "Transaction \<Rightarrow> db \<Rightarrow> string \<times> db" where
  "create_document_transaction t s = (let (i, s1) = insert_one_transaction t s in (str_oid i, s1))"

definition create_document_receipt :: "Receipt \<Rightarrow> db \<Rightarrow> string \<times> db" where
  "create_document_receipt r s = (let (i, s1) = insert_one_receipt r s in (str_oid i, s1))"

definition get_documents_transaction :: "db \<Rightarrow> transaction_doc list" where
  "get_documents_transaction s = transaction s"

section \<open>Handlers (main.py)\<close>

subsection \<open>What a handler reads from outside the store\<close>

text \<open>
  \<open>format_x oid\<close> is the value of \<open>format(oid, "x")\<close> for an ObjectId, which the
  f-string \<open>f"0x{ObjectId():x}"\<close> evaluates; \<open>None\<close> stands for the \<open>TypeError\<close> that
  \<open>format\<close> raises when the class does not support the format specification.
  The two clock fields are the values of the two \<open>datetime.utcnow()\<close> calls of
  \<open>create_donation\<close>.
\<close>

record env =
  format_x :: "object_id \<Rightarrow> string option"
  utcnow_update :: datetime
  utcnow_receipt :: datetime

text \<open>
  bson's \<open>ObjectId\<close> defines \<open>__str__\<close> and \<open>__repr__\<close> and no \<open>__format__\<close>, so
  \<open>object.__format__\<close> is used, which raises \<open>TypeError\<close> for every non-empty format
  specification.
\<close>

definition bson_env :: "datetime \<Rightarrow> datetime \<Rightarrow> env" where
  "bson_env t1 t2 = \<lparr>format_x = (\<lambda>oid. None), utcnow_update = t1, utcnow_receipt = t2\<rparr>"

subsection \<open>POST /api/seed\<close>

definition seed :: "db \<Rightarrow> db" where
  "seed s =
     (if length (ngo s) = 0 then
        (let (i0, s1) = insert_one_ngo
                \<lparr>name = ''Aranya Eco Foundation'', registration_id = ''KA-REG-001'',
                 category = ''Air'', ngo_city = Some ''Bengaluru'',
                 ngo_state = Some ''Karnataka'', verified = True\<rparr> s;
             (i1, s2) = insert_one_ngo
                \<lparr>name = ''JalRaksha Trust'', registration_id = ''KA-REG-002'',
                 category = ''Water'', ngo_city = Some ''Bengaluru'',
                 ngo_state = Some ''Karnataka'', verified = True\<rparr> s1;
             (i2, s3) = insert_one_ngo
                \<lparr>name = ''Nirmal Waste Collective'', registration_id = ''KA-REG-003'',
                 category = ''Waste'', ngo_city = Some ''Bengaluru'',
                 ngo_state = Some ''Karnataka'', verified = True\<rparr> s2
         in case insert_many_campaign
              [\<lparr>title = ''Air: Urban Tree Plantation'', ngo_id = str_oid i0, domain = ''Air'',
                goal_inr = 500000, raised_inr = 0,
                description = Some ''Plant and maintain native trees in urban hotspots.'',
                city = None, state = None, milestones = None\<rparr>,
               \<lparr>title = ''Water: Lake Restoration'', ngo_id = str_oid i1, domain = ''Water'',
                goal_inr = 800000, raised_inr = 0,
                description = Some ''Desilting and wetland buffer creation.'',
                city = None, state = None, milestones = None\<rparr>,
               \<lparr>title = ''Waste: Smart Segregation'', ngo_id = str_oid i2, domain = ''Waste'',
                goal_inr = 300000, raised_inr = 0,
                description = Some ''IoT bins and community awareness.'',
                city = None, state = None, milestones = None\<rparr>]
              s3 of
              Inr s4 \<Rightarrow> s4
            | Inl err \<Rightarrow> s3)
      else s)"

subsection \<open>POST /api/ngos and POST /api/campaigns\<close>

definition create_ngo :: "db \<Rightarrow> NGO \<Rightarrow> string \<times> db" where
  "create_ngo s n = create_document_ngo n s"

definition create_campaign :: "db \<Rightarrow> Campaign \<Rightarrow> (exn + string) \<times> db" where
  "create_campaign s c =
     (let found = (if is_valid (ngo_id c)
                   then (case ObjectId (ngo_id c) of None \<Rightarrow> None | Some i \<Rightarrow> find_one_ngo i s)
                   else None)
      in case found of
           None \<Rightarrow> (Inl (HTTPException 400 ''NGO not found''), s)
         | Some n \<Rightarrow>
            (case create_document_campaign c s of
               Inl err \<Rightarrow> (Inl err, s)
             | Inr (new_id, s1) \<Rightarrow> (Inr new_id, s1)))"

subsection \<open>POST /api/donations\<close>

record donation_result =
  res_donation_id :: string
  res_tx_hash :: string
  res_receipt_id :: string
  res_message :: string

definition create_donation :: "env \<Rightarrow> db \<Rightarrow> DonationIn \<Rightarrow> (exn + donation_result) \<times> db" where
  "create_donation e s payload =
     (case ObjectId (campaign_id payload) of
        None \<Rightarrow> (Inl (HTTPException 400 ''Invalid campaign id''), s)
      | Some cid \<Rightarrow>
         (case find_one_campaign cid s of
            None \<Rightarrow> (Inl (HTTPException 404 ''Campaign not found''), s)
          | Some camp \<Rightarrow>
             (case new_Donation (campaign_id payload) (donor_name payload)
                     (amount_inr payload) (payment_method payload) of
                Inl err \<Rightarrow> (Inl err, s)
              | Inr don \<Rightarrow>
                 (case create_document_donation don s of
                    Inl err \<Rightarrow> (Inl err, s)
                  | Inr (don_id, s1) \<Rightarrow>
                     (case update_one_campaign cid (amount_inr payload) (utcnow_update e) s1 of
                        Inl err \<Rightarrow> (Inl err, s1)
                      | Inr s2 \<Rightarrow>
                         (let (h, s3) = new_ObjectId s2
                          in case format_x e h of
                               None \<Rightarrow> (Inl TypeError, s3)
                             | Some hx \<Rightarrow>
                                (let txh = ''0x'' @ hx;
                                     (tx_id, s4) = create_document_transaction
                                        \<lparr>donation_id = don_id, tx_hash = txh,
                                         status = ''Settled''\<rparr> s3;
                                     (rc_id, s5) = create_document_receipt
                                        \<lparr>receipt_donation_id = don_id,
                                         receipt_nft_id = Some (''nft-'' @ don_id),
                                         issued_at = Some (utcnow_receipt e)\<rparr> s4
                                 in (Inr \<lparr>res_donation_id = don_id, res_tx_hash = txh,
                                          res_receipt_id = rc_id,
                                          res_message =
                                            ''Donation recorded with on-chain receipt''\<rparr>,
                                     s5))))))))"



subsection \<open>GET /api/transactions\<close>

text \<open>The Python slice \<open>xs[start:]\<close> for an integer \<open>start\<close>.\<close>

definition slice_from :: "int \<Rightarrow> 'a list \<Rightarrow> 'a list" where
  "slice_from start xs =
     (if start < 0 then drop (nat (max 0 (int (length xs) + start))) xs
      else drop (nat start) xs)"

text \<open>A dict comprehension over a list of key-value pairs: a later pair replaces an earlier one.\<close>

definition dict_of :: "('k \<times> 'v) list \<Rightarrow> 'k \<Rightarrow> 'v option" where
  "dict_of kvs = map_of (rev kvs)"

definition donation_map :: "db \<Rightarrow> string \<Rightarrow> donation_doc option" where
  "donation_map s = dict_of (map (\<lambda>x. (str_oid (donation_oid x), x)) (donation s))"

definition campaign_map :: "db \<Rightarrow> string \<Rightarrow> campaign_doc option" where
  "campaign_map s = dict_of (map (\<lambda>x. (str_oid (campaign_oid x), x)) (campaign s))"

definition ngo_map :: "db \<Rightarrow> string \<Rightarrow> ngo_doc option" where
  "ngo_map s = dict_of (map (\<lambda>x. (str_oid (ngo_oid x), x)) (ngo s))"

record ledger_row =
  row_id :: string
  row_donation_id :: string
  row_tx_hash :: string
  row_status :: string
  row_amount_inr :: "int option"
  row_campaign_title :: "string option"
  row_domain :: "string option"
  row_ngo_name :: "string option"

definition serialize_transaction :: "transaction_doc \<Rightarrow> ledger_row" where
  "serialize_transaction it =
     \<lparr>row_id = str_oid (transaction_oid it), row_donation_id = donation_id it,
      row_tx_hash = tx_hash it, row_status = status it, row_amount_inr = None,
      row_campaign_title = None, row_domain = None, row_ngo_name = None\<rparr>"

definition ledger_row_of :: "db \<Rightarrow> transaction_doc \<Rightarrow> ledger_row" where
  "ledger_row_of s it =
     (let r = serialize_transaction it in
      case donation_map s (row_donation_id r) of
        None \<Rightarrow> r
      | Some d \<Rightarrow>
         (let r1 = r\<lparr>row_amount_inr := Some (amount_inr d)\<rparr>;
              camp = (if campaign_id d \<noteq> [] then campaign_map s (campaign_id d) else None)
          in case camp of
               None \<Rightarrow> r1
             | Some c \<Rightarrow>
                (let r2 = r1\<lparr>row_campaign_title := Some (title c), row_domain := Some (domain c)\<rparr>;
                     n = (if ngo_id c \<noteq> [] then ngo_map s (ngo_id c) else None)
                 in case n of
                      None \<Rightarrow> r2
                    | Some g \<Rightarrow> r2\<lparr>row_ngo_name := Some (name g)\<rparr>)))"

definition list_transactions :: "db \<Rightarrow> int \<Rightarrow> ledger_row list" where
  "list_transactions s limit =
     (let items = get_documents_transaction s;
          items1 = slice_from (- limit) items
      in map (ledger_row_of s) (rev items1))"

subsection \<open>GET /api/leaderboard\<close>









subsection \<open>The API as a whole\<close>

text \<open>
  One constructor per route. The bodies of POST /api/ngos and POST /api/campaigns are
  parsed into \<open>NGO\<close> and \<open>Campaign\<close> before the handler runs, so a campaign body that
  violates a field constraint is rejected with 422 and the handler is not called. The
  handlers of the GET routes only read the store.
\<close>

datatype request =
    GetRoot
  | GetTest
  | PostSeed
  | ListNgos
  | CreateNgo NGO
  | ListCampaigns "string option"
  | CreateCampaign Campaign
  | ListDonations
  | CreateDonation DonationIn
  | ListTransactions int
  | GetLeaderboard

text \<open>The store after a request has been handled.\<close>

fun handle :: "env \<Rightarrow> db \<Rightarrow> request \<Rightarrow> db" where
  "handle e s PostSeed = seed s"
| "handle e s (CreateNgo n) = snd (create_ngo s n)"
| "handle e s (CreateCampaign c) = (if Campaign_valid c then snd (create_campaign s c) else s)"
| "handle e s (CreateDonation p) = snd (create_donation e s p)"
| "handle e s r = s"

section \<open>The quantities the specification speaks of\<close>






text \<open>
  The campaign a \<open>campaign_id\<close> string references: none when the string is malformed,
  and none when it is well-formed and no campaign has that \<open>_id\<close>.
\<close>

definition referenced_campaign :: "db \<Rightarrow> string \<Rightarrow> campaign_doc option" where
  "referenced_campaign s k =
     (case ObjectId k of None \<Rightarrow> None | Some i \<Rightarrow> find_one_campaign i s)"

text \<open>A sequence of requests, each with what its handler reads from outside the store.\<close>

definition run :: "db \<Rightarrow> (env \<times> request) list \<Rightarrow> db" where
  "run s ers = foldl (\<lambda>s1 er. handle (fst er) s1 (snd er)) s ers"

section \<open>Example requests and stores\<close>

text \<open>
  After \<open>seed\<close> on the empty store the NGOs have the identifiers 0, 1, 2 and the
  campaigns 3, 4, 5; the Air campaign is number 3 and belongs to NGO 0
  (Aranya Eco Foundation).
\<close>

definition air_campaign_id :: string where
  "air_campaign_id = ''000000000000000000000003''"


definition air_donation :: "int \<Rightarrow> DonationIn" where
  "air_donation amt =
     \<lparr>campaign_id = air_campaign_id, donor_name = None, amount_inr = amt,
      payment_method = ''upi''\<rparr>"







text \<open>A store whose transaction collection holds two documents.\<close>

definition two_transactions_db :: db where
  "two_transactions_db =
     empty_db\<lparr>transaction :=
       [Transaction.extend \<lparr>donation_id = ''d1'', tx_hash = ''0xa1'', status = ''Settled''\<rparr>
          (transaction_doc.fields (generated_oid 1)),
        Transaction.extend \<lparr>donation_id = ''d2'', tx_hash = ''0xa2'', status = ''Settled''\<rparr>
          (transaction_doc.fields (generated_oid 2))]\<rparr>"

section \<open>Basic facts\<close>

lemma campaign_doc_sel [simp]:
  "raised_inr (Campaign.extend c (campaign_doc.fields i u)) = raised_inr c"
  "ngo_id (Campaign.extend c (campaign_doc.fields i u)) = ngo_id c"
  "title (Campaign.extend c (campaign_doc.fields i u)) = title c"
  "domain (Campaign.extend c (campaign_doc.fields i u)) = domain c"
  "campaign_oid (Campaign.extend c (campaign_doc.fields i u)) = i"
  "updated_at (Campaign.extend c (campaign_doc.fields i u)) = u"
  by (simp_all add: Campaign.defs campaign_doc.defs)

lemma donation_doc_sel [simp]:
  "amount_inr (Donation.extend d (donation_doc.fields i)) = amount_inr d"
  "campaign_id (Donation.extend d (donation_doc.fields i)) = campaign_id d"
  "donation_oid (Donation.extend d (donation_doc.fields i)) = i"
  by (simp_all add: Donation.defs donation_doc.defs)

lemma transaction_doc_sel [simp]:
  "donation_id (Transaction.extend t (transaction_doc.fields i)) = donation_id t"
  "tx_hash (Transaction.extend t (transaction_doc.fields i)) = tx_hash t"
  "status (Transaction.extend t (transaction_doc.fields i)) = status t"
  "transaction_oid (Transaction.extend t (transaction_doc.fields i)) = i"
  by (simp_all add: Transaction.defs transaction_doc.defs)

lemma receipt_doc_sel [simp]:
  "receipt_donation_id (Receipt.extend r (receipt_doc.fields i)) = receipt_donation_id r"
  "receipt_oid (Receipt.extend r (receipt_doc.fields i)) = i"
  by (simp_all add: Receipt.defs receipt_doc.defs)

lemma ngo_doc_sel [simp]:
  "name (NGO.extend n (ngo_doc.fields i)) = name n"
  "ngo_oid (NGO.extend n (ngo_doc.fields i)) = i"
  by (simp_all add: NGO.defs ngo_doc.defs)

lemma Donation_eta [simp]:
  "\<lparr>campaign_id = campaign_id p, donor_name = donor_name p, amount_inr = amount_inr p,
    payment_method = payment_method p\<rparr> = (p :: Donation)"
  by (cases p) simp

lemma insert_one_ngo_sel [simp]:
  "fst (insert_one_ngo n s) = generated_oid (next_oid s)"
  "ngo (snd (insert_one_ngo n s)) =
     ngo s @ [NGO.extend n (ngo_doc.fields (generated_oid (next_oid s)))]"
  "campaign (snd (insert_one_ngo n s)) = campaign s"
  "donation (snd (insert_one_ngo n s)) = donation s"
  "transaction (snd (insert_one_ngo n s)) = transaction s"
  "receipt (snd (insert_one_ngo n s)) = receipt s"
  "next_oid (snd (insert_one_ngo n s)) = Suc (next_oid s)"
  by (simp_all add: insert_one_ngo_def new_ObjectId_def)

lemma insert_one_campaign_ok:
  "int64 (goal_inr c) \<Longrightarrow> int64 (raised_inr c) \<Longrightarrow>
   insert_one_campaign c s =
     Inr (generated_oid (next_oid s),
          s\<lparr>next_oid := Suc (next_oid s),
            campaign := campaign s @
              [Campaign.extend c (campaign_doc.fields (generated_oid (next_oid s)) None)]\<rparr>)"
  by (simp add: insert_one_campaign_def new_ObjectId_def)

lemma insert_one_campaign_cases:
  "insert_one_campaign c s = Inl OverflowError \<or>
   insert_one_campaign c s =
     Inr (generated_oid (next_oid s),
          s\<lparr>next_oid := Suc (next_oid s),
            campaign := campaign s @
              [Campaign.extend c (campaign_doc.fields (generated_oid (next_oid s)) None)]\<rparr>)"
  by (simp add: insert_one_campaign_def new_ObjectId_def)

lemma insert_many_campaign_ngo:
  "insert_many_campaign cs s = Inr s' \<Longrightarrow> ngo s' = ngo s"
proof (induction cs arbitrary: s)
  case Nil
  then show ?case by simp
next
  case (Cons c cs)
  from insert_one_campaign_cases [of c s] Cons show ?case
    by (auto split: sum.splits)
qed

lemma seed_ngo_nonempty: "ngo (seed s) \<noteq> []"
proof (cases "length (ngo s) = 0")
  case False
  then show ?thesis by (simp add: seed_def)
next
  case True
  then show ?thesis
    by (auto simp: seed_def split_beta split: sum.splits dest!: insert_many_campaign_ngo
        simp del: insert_many_campaign.simps)
qed

lemma seed_noop: "ngo s \<noteq> [] \<Longrightarrow> seed s = s"
  by (simp add: seed_def)

text \<open>
  Claim C9. POST /api/seed is idempotent once the NGO collection is non-empty: on a store
  whose \<open>ngo\<close> collection holds at least one document it inserts nothing, and calling
  it twice in succession leaves the store as calling it once does.
\<close>

theorem seed_idempotent:
  "(ngo s \<noteq> [] \<longrightarrow> seed s = s) \<and> seed (seed s) = seed s"
  using seed_noop seed_ngo_nonempty by blast

subsection \<open>The ledger and the donation workflow, step by step\<close>

lemma slice_from_0 [simp]: "slice_from 0 xs = xs"
  by (simp add: slice_from_def)

lemma ledger_row_of_fields [simp]:
  "row_id (ledger_row_of s t) = str_oid (transaction_oid t)"
  "row_donation_id (ledger_row_of s t) = donation_id t"
  "row_tx_hash (ledger_row_of s t) = tx_hash t"
  "row_status (ledger_row_of s t) = status t"
  "row_amount_inr (ledger_row_of s t) = map_option amount_inr (donation_map s (donation_id t))"
  by (simp_all add: ledger_row_of_def serialize_transaction_def Let_def split: option.splits)

text \<open>
  Claim C10. With \<open>limit = 0\<close> the slice \<open>items[-limit:]\<close> is the whole list, so
  GET /api/transactions?limit=0 returns one row for every transaction of the store and
  not zero rows: the rows carry, newest first, the identifiers, donation identifiers,
  hashes and statuses of the stored transactions, each with the amount of the donation
  it references.
\<close>

theorem list_transactions_limit_0:
  "length (list_transactions s 0) = length (transaction s) \<and>
   map row_id (list_transactions s 0) = rev (map (\<lambda>t. str_oid (transaction_oid t)) (transaction s)) \<and>
   map row_donation_id (list_transactions s 0) = rev (map donation_id (transaction s)) \<and>
   map row_tx_hash (list_transactions s 0) = rev (map tx_hash (transaction s)) \<and>
   map row_status (list_transactions s 0) = rev (map status (transaction s)) \<and>
   map row_amount_inr (list_transactions s 0) =
     rev (map (\<lambda>t. map_option amount_inr (donation_map s (donation_id t))) (transaction s))"
  by (simp add: list_transactions_def get_documents_transaction_def rev_map comp_def)

lemma find_update_first:
  "(\<And>x. P x \<Longrightarrow> P (f x)) \<Longrightarrow> find P (update_first P f xs) = map_option f (find P xs)"
  by (induction xs) auto

lemmas create_donation_defs =
  create_donation_def new_Donation_def create_document_donation_def
  insert_one_donation_def new_ObjectId_def update_one_campaign_def
  create_document_transaction_def insert_one_transaction_def
  create_document_receipt_def insert_one_receipt_def


lemma create_donation_bad_amount:
  assumes "referenced_campaign s (campaign_id p) = Some c" and "amount_inr p < 1"
  shows "create_donation e s p = (Inl ValidationError, s)"
  using assms
  by (auto simp: referenced_campaign_def create_donation_def new_Donation_def
      split: option.splits)

lemma create_donation_overflow:
  assumes "referenced_campaign s (campaign_id p) = Some c" and "1 \<le> amount_inr p"
    and "\<not> int64 (amount_inr p)"
  shows "create_donation e s p = (Inl OverflowError, s)"
  using assms
  by (auto simp: referenced_campaign_def create_donation_defs split: option.splits)

lemma create_donation_ok_campaign:
  assumes "ObjectId (campaign_id p) = Some cid" and "find_one_campaign cid s = Some camp"
    and "1 \<le> amount_inr p" and "int64 (amount_inr p)"
    and "int64 (raised_inr camp + amount_inr p)"
  shows "campaign (snd (create_donation e s p)) =
     update_first (\<lambda>x. campaign_oid x = cid)
           (\<lambda>x. x\<lparr>raised_inr := raised_inr x + amount_inr p, updated_at := Some (utcnow_update e)\<rparr>)
           (campaign s)"
  using assms
  by (simp add: create_donation_defs find_one_campaign_def Let_def split: option.splits)

lemma create_donation_bson:
  assumes "referenced_campaign s (campaign_id p) = Some c" and "1 \<le> amount_inr p"
    and "int64 (amount_inr p)" and "int64 (raised_inr c + amount_inr p)"
  shows "fst (create_donation (bson_env t1 t2) s p) = Inl TypeError"
    and "donation (snd (create_donation (bson_env t1 t2) s p)) =
           donation s @ [Donation.extend p (donation_doc.fields (generated_oid (next_oid s)))]"
    and "transaction (snd (create_donation (bson_env t1 t2) s p)) = transaction s"
    and "receipt (snd (create_donation (bson_env t1 t2) s p)) = receipt s"
    and "ngo (snd (create_donation (bson_env t1 t2) s p)) = ngo s"
    and "next_oid (snd (create_donation (bson_env t1 t2) s p)) = Suc (Suc (next_oid s))"
  using assms
  by (auto simp: referenced_campaign_def create_donation_defs bson_env_def find_one_campaign_def
      split: option.splits)

lemma bson_env_never_succeeds: "isl (fst (create_donation (bson_env t1 t2) s p))"
  by (auto simp: create_donation_defs bson_env_def Let_def split: option.splits sum.splits)

lemma create_donation_success:
  assumes "create_donation e s p = (Inr r, s')"
  shows "\<exists>d t rc.
      donation s' = donation s @ [d] \<and> transaction s' = transaction s @ [t] \<and>
      receipt s' = receipt s @ [rc] \<and> status t = ''Settled'' \<and>
      donation_id t = str_oid (donation_oid d) \<and>
      receipt_donation_id rc = str_oid (donation_oid d) \<and>
      res_donation_id r = str_oid (donation_oid d)"
  using assms
  by (auto simp: create_donation_defs Let_def split: option.splits sum.splits if_splits)

text \<open>
  Claim C1, amended. When the \<open>campaign_id\<close> of a donation request references an existing
  campaign, \<open>amount_inr\<close> is at least 1, and \<open>amount_inr\<close> and the sum of the campaign's
  \<open>raised_inr\<close> and \<open>amount_inr\<close> fit the store's 8-byte integers, the referenced
  campaign has, in the store the call leaves behind, its former \<open>raised_inr\<close> plus
  \<open>amount_inr\<close>.
\<close>

theorem donation_increments_raised:
  assumes "ObjectId (campaign_id p) = Some cid" and "find_one_campaign cid s = Some camp"
    and "1 \<le> amount_inr p" and "int64 (amount_inr p)"
    and "int64 (raised_inr camp + amount_inr p)"
  shows "find_one_campaign cid (snd (create_donation e s p)) =
           Some (camp\<lparr>raised_inr := raised_inr camp + amount_inr p,
                      updated_at := Some (utcnow_update e)\<rparr>)"
  using assms(2) unfolding find_one_campaign_def create_donation_ok_campaign [OF assms]
  by (subst find_update_first) simp_all

subsection \<open>The seeded store\<close>

lemma be_bytes_numeral:
  "be_bytes (numeral k) n = be_bytes (pred_numeral k) (n div 256) @ [n mod 256]"
proof -
  have "be_bytes (Suc (pred_numeral k)) n = be_bytes (pred_numeral k) (n div 256) @ [n mod 256]"
    by (rule be_bytes.simps(2))
  then show ?thesis by (simp only: numeral_eq_Suc [symmetric])
qed

lemma generated_oid_small:
  "n < 256 \<Longrightarrow> generated_oid n = OID [0, 0, 0, 0, 0, 0, 0, 0, 0, 0, 0, n]"
  by (simp add: generated_oid_def be_bytes_numeral)

lemma ObjectId_air: "ObjectId air_campaign_id = Some (generated_oid 3)"
  by (simp add: air_campaign_id_def ObjectId_def hex_val_def is_space_def generated_oid_small)





lemma int64_seed_goals: "int64 0" "int64 500000" "int64 800000" "int64 300000"
  by (simp_all add: int64_def)

lemma small_numerals:
  "Suc (Suc (Suc 0)) = 3" "Suc (Suc (Suc (Suc 0))) = 4" "Suc (Suc (Suc (Suc (Suc 0)))) = 5"
  by simp_all

lemma seed_empty_campaign_oids:
  "map campaign_oid (campaign (seed empty_db)) =
     [generated_oid 3, generated_oid 4, generated_oid 5]"
  by (simp add: seed_def empty_db_def split_beta insert_one_campaign_def int64_seed_goals
      new_ObjectId_def small_numerals)

lemma seed_empty_raised: "map raised_inr (campaign (seed empty_db)) = [0, 0, 0]"
  by (simp add: seed_def empty_db_def split_beta insert_one_campaign_def int64_seed_goals
      new_ObjectId_def)

lemma seed_empty_rest:
  "donation (seed empty_db) = []" "transaction (seed empty_db) = []"
  "receipt (seed empty_db) = []"
  by (simp_all add: seed_def empty_db_def split_beta insert_one_campaign_def int64_seed_goals
      new_ObjectId_def)

lemma seed_air:
  "referenced_campaign (seed empty_db) air_campaign_id = Some (hd (campaign (seed empty_db)))"
  using seed_empty_campaign_oids
  by (cases "campaign (seed empty_db)")
     (auto simp: referenced_campaign_def ObjectId_air find_one_campaign_def)

lemma seed_air_raised: "raised_inr (hd (campaign (seed empty_db))) = 0"
  using seed_empty_raised by (cases "campaign (seed empty_db)") auto




section \<open>The donation workflow and the ledger\<close>

theorem donation_increments_raised_witness:
  "ObjectId (campaign_id (air_donation 1000)) = Some (generated_oid 3) \<and>
   map_option raised_inr (find_one_campaign (generated_oid 3) (seed empty_db)) = Some 0 \<and>
   map_option raised_inr
     (find_one_campaign (generated_oid 3)
        (snd (create_donation (bson_env 3 4) (seed empty_db) (air_donation 1000)))) = Some 1000"
proof -
  have h1: "ObjectId (campaign_id (air_donation 1000)) = Some (generated_oid 3)"
    by (simp add: air_donation_def ObjectId_air)
  have h2: "find_one_campaign (generated_oid 3) (seed empty_db) =
              Some (hd (campaign (seed empty_db)))"
    using seed_air by (simp add: referenced_campaign_def ObjectId_air)
  have h3: "1 \<le> amount_inr (air_donation 1000)"
    by (simp add: air_donation_def)
  have h4: "int64 (amount_inr (air_donation 1000))"
    by (simp add: air_donation_def int64_def)
  have h5: "int64 (raised_inr (hd (campaign (seed empty_db))) + amount_inr (air_donation 1000))"
    by (simp add: air_donation_def int64_def seed_air_raised)
  show ?thesis
    using donation_increments_raised [OF h1 h2 h3 h4 h5, of "bson_env 3 4"] h1 h2 seed_air_raised
    by (simp add: air_donation_def)
qed

text \<open>
  Claim C1 as stated fails for an amount beyond the store's 8-byte integers: a donation of
  \<open>2^63\<close> INR to the seeded Air campaign passes the \<open>ge=1\<close> check, the insert of the
  donation raises \<open>OverflowError\<close>, and \<open>raised_inr\<close> stays 0.
\<close>

theorem huge_donation_leaves_raised_unchanged:
  "map_option raised_inr (referenced_campaign (seed empty_db) air_campaign_id) = Some 0 \<and>
   campaign_id (air_donation (2 ^ 63)) = air_campaign_id \<and>
   1 \<le> amount_inr (air_donation (2 ^ 63)) \<and>
   create_donation (bson_env 3 4) (seed empty_db) (air_donation (2 ^ 63)) =
     (Inl OverflowError, seed empty_db) \<and>
   map_option raised_inr
     (referenced_campaign
        (snd (create_donation (bson_env 3 4) (seed empty_db) (air_donation (2 ^ 63))))
        air_campaign_id) = Some 0"
proof -
  have r: "referenced_campaign (seed empty_db) (campaign_id (air_donation (2 ^ 63))) =
             Some (hd (campaign (seed empty_db)))"
    by (simp add: air_donation_def seed_air)
  have a: "1 \<le> amount_inr (air_donation (2 ^ 63))"
    by (simp add: air_donation_def)
  have b: "\<not> int64 (amount_inr (air_donation (2 ^ 63)))"
    by (simp add: air_donation_def int64_def)
  from create_donation_overflow [OF r a b, of "bson_env 3 4"] a show ?thesis
    by (simp add: seed_air seed_air_raised air_donation_def)
qed

theorem seed_idempotent_witness:
  "ngo (seed empty_db) \<noteq> [] \<and> seed (seed empty_db) = seed empty_db"
  using seed_idempotent [of "seed empty_db"] seed_ngo_nonempty [of empty_db] by blast



text \<open>
  Claim C3 says that every successful POST /api/donations creates one Donation, one
  Transaction with status "Settled" and one Receipt. With bson's \<open>ObjectId\<close> the
  f-string of the transaction hash raises \<open>TypeError\<close>: no call succeeds, and a donation
  to the seeded Air campaign leaves one Donation, no Transaction and no Receipt.
\<close>

theorem donation_aborts_before_transaction:
  "isl (fst (create_donation (bson_env t1 t2) s p)) \<and>
   fst (create_donation (bson_env t1 t2) (seed empty_db) (air_donation 1000)) = Inl TypeError \<and>
   length (donation (snd (create_donation (bson_env t1 t2) (seed empty_db) (air_donation 1000)))) = 1 \<and>
   transaction (snd (create_donation (bson_env t1 t2) (seed empty_db) (air_donation 1000))) = [] \<and>
   receipt (snd (create_donation (bson_env t1 t2) (seed empty_db) (air_donation 1000))) = []"
proof -
  have r: "referenced_campaign (seed empty_db) (campaign_id (air_donation 1000)) =
             Some (hd (campaign (seed empty_db)))"
    by (simp add: air_donation_def seed_air)
  have a: "1 \<le> amount_inr (air_donation 1000)"
    by (simp add: air_donation_def)
  have b: "int64 (amount_inr (air_donation 1000))"
    by (simp add: air_donation_def int64_def)
  have c: "int64 (raised_inr (hd (campaign (seed empty_db))) + amount_inr (air_donation 1000))"
    by (simp add: air_donation_def int64_def seed_air_raised)
  show ?thesis
    using create_donation_bson [OF r a b c, of t1 t2] bson_env_never_succeeds [of t1 t2 s p]
    by (simp add: seed_empty_rest)
qed

text \<open>
  Claim C7 says that a donation with an existing campaign and \<open>amount_inr < 1\<close> fails
  with a ValidationError that is answered with a 4xx status, before any write. The
  error is raised by the \<open>Donation\<close> constructor inside the handler: nothing is written,
  and the exception escapes the handler, which is answered with status 500.
\<close>

theorem invalid_amount_is_server_error:
  "create_donation e (seed empty_db) (air_donation 0) = (Inl ValidationError, seed empty_db) \<and>
   status_code ValidationError = 500 \<and> is_4xx (status_code ValidationError) = False"
proof -
  have r: "referenced_campaign (seed empty_db) (campaign_id (air_donation 0)) =
             Some (hd (campaign (seed empty_db)))"
    by (simp add: air_donation_def seed_air)
  have a: "amount_inr (air_donation 0) < 1"
    by (simp add: air_donation_def)
  show ?thesis
    using create_donation_bad_amount [OF r a, of e]
    by (simp add: status_code_def is_4xx_def)
qed

lemma list_transactions_positive_limit:
  assumes "1 \<le> n"
  shows "list_transactions s n =
           map (ledger_row_of s) (rev (drop (length (transaction s) - nat n) (transaction s)))"
    and "length (list_transactions s n) \<le> nat n"
  using assms
  by (auto simp: list_transactions_def get_documents_transaction_def slice_from_def Let_def
      max_def nat_diff_distrib' intro!: arg_cong[where f="\<lambda>k. drop k (transaction s)"])

text \<open>
  Claim C6 says that GET /api/transactions?limit=N returns at most N rows for every
  integer N. On a store with two transactions, \<open>limit = 0\<close> returns two rows and
  \<open>limit = -1\<close> returns one.
\<close>

theorem list_transactions_limit_not_a_cap:
  "length (list_transactions two_transactions_db 0) = 2 \<and>
   length (list_transactions two_transactions_db (- 1)) = 1"
  by (simp add: list_transactions_def get_documents_transaction_def slice_from_def
      two_transactions_db_def empty_db_def)

section \<open>The raised total of a campaign\<close>

lemma update_first_length [simp]: "length (update_first P f xs) = length xs"
  by (induction xs) auto

lemma update_first_nth:
  "i < length xs \<Longrightarrow>
     update_first P f xs ! i = xs ! i \<or> (P (xs ! i) \<and> update_first P f xs ! i = f (xs ! i))"
proof (induction xs arbitrary: i)
  case Nil
  then show ?case by simp
next
  case (Cons x xs)
  then show ?case by (cases i) auto
qed

lemma update_first_set:
  "x \<in> set (update_first P f xs) \<Longrightarrow> x \<in> set xs \<or> (\<exists>y\<in>set xs. x = f y)"
  by (induction xs) (auto split: if_splits)

lemma seed_campaign:
  "\<exists>ds. campaign (seed s) = campaign s @ ds \<and> (\<forall>c\<in>set ds. raised_inr c = 0)"
  by (cases "length (ngo s) = 0")
     (simp_all add: seed_def split_beta insert_one_campaign_def int64_seed_goals new_ObjectId_def)

lemma create_campaign_campaign:
  "campaign (snd (create_campaign s c)) = campaign s \<or>
   (\<exists>d. campaign (snd (create_campaign s c)) = campaign s @ [d] \<and> raised_inr d = raised_inr c)"
  by (auto simp: create_campaign_def create_document_campaign_def insert_one_campaign_def
      new_ObjectId_def Let_def split: option.splits sum.splits if_splits)

lemma create_ngo_campaign [simp]: "campaign (snd (create_ngo s n)) = campaign s"
  by (simp add: create_ngo_def create_document_ngo_def split_beta)

lemma create_donation_campaign:
  "campaign (snd (create_donation e s p)) = campaign s \<or>
   (\<exists>cid. ObjectId (campaign_id p) = Some cid \<and> 1 \<le> amount_inr p \<and>
      campaign (snd (create_donation e s p)) =
        update_first (\<lambda>x. campaign_oid x = cid)
          (\<lambda>x. x\<lparr>raised_inr := raised_inr x + amount_inr p,
                   updated_at := Some (utcnow_update e)\<rparr>) (campaign s) \<and>
      (\<exists>d\<in>set (donation (snd (create_donation e s p))).
          campaign_id d = campaign_id p \<and> amount_inr d = amount_inr p))"
  by (auto simp: create_donation_defs Let_def split: option.splits sum.splits if_splits)

lemma handle_campaign:
  "(\<exists>ds. campaign (handle e s r) = campaign s @ ds \<and> (\<forall>c\<in>set ds. 0 \<le> raised_inr c)) \<or>
   (\<exists>cid amt now. 1 \<le> amt \<and>
      campaign (handle e s r) =
        update_first (\<lambda>x. campaign_oid x = cid)
          (\<lambda>x. x\<lparr>raised_inr := raised_inr x + amt, updated_at := Some now\<rparr>) (campaign s) \<and>
      (\<exists>d\<in>set (donation (handle e s r)).
          ObjectId (campaign_id d) = Some cid \<and> amount_inr d = amt))"
proof (cases r)
  case PostSeed
  then show ?thesis using seed_campaign [of s] by auto
next
  case (CreateCampaign c)
  then show ?thesis
    using create_campaign_campaign [of s c] by (auto simp: Campaign_valid_def)
next
  case (CreateDonation p)
  from create_donation_campaign [of e s p] show ?thesis
  proof
    assume "campaign (snd (create_donation e s p)) = campaign s"
    with CreateDonation show ?thesis by simp
  next
    assume "\<exists>cid. ObjectId (campaign_id p) = Some cid \<and> 1 \<le> amount_inr p \<and>
      campaign (snd (create_donation e s p)) =
        update_first (\<lambda>x. campaign_oid x = cid)
          (\<lambda>x. x\<lparr>raised_inr := raised_inr x + amount_inr p,
                   updated_at := Some (utcnow_update e)\<rparr>) (campaign s) \<and>
      (\<exists>d\<in>set (donation (snd (create_donation e s p))).
          campaign_id d = campaign_id p \<and> amount_inr d = amount_inr p)"
    then obtain cid d where f: "ObjectId (campaign_id p) = Some cid" "1 \<le> amount_inr p"
      "campaign (snd (create_donation e s p)) =
        update_first (\<lambda>x. campaign_oid x = cid)
          (\<lambda>x. x\<lparr>raised_inr := raised_inr x + amount_inr p,
                   updated_at := Some (utcnow_update e)\<rparr>) (campaign s)"
      "d \<in> set (donation (snd (create_donation e s p)))"
      "campaign_id d = campaign_id p" "amount_inr d = amount_inr p"
      by blast
    have "\<exists>d\<in>set (donation (snd (create_donation e s p))).
            ObjectId (campaign_id d) = Some cid \<and> amount_inr d = amount_inr p"
      using f by (intro bexI [of _ d]) simp_all
    with CreateDonation f(2,3) show ?thesis
      by (intro disjI2 exI [of _ cid] exI [of _ "amount_inr p"] exI [of _ "utcnow_update e"])
         simp
  qed
qed simp_all

lemma run_snoc: "run s (ers @ [er]) = handle (fst er) (run s ers) (snd er)"
  by (simp add: run_def)

lemma handle_keeps_raised_nonneg:
  assumes "\<forall>c\<in>set (campaign s). 0 \<le> raised_inr c"
  shows "\<forall>c\<in>set (campaign (handle e s r)). 0 \<le> raised_inr c"
  using handle_campaign [of e s r]
proof (elim disjE exE conjE)
  fix ds
  assume "campaign (handle e s r) = campaign s @ ds" "\<forall>c\<in>set ds. 0 \<le> raised_inr c"
  with assms show ?thesis by auto
next
  fix cid amt now
  let ?P = "\<lambda>x. campaign_oid x = cid"
  let ?f = "\<lambda>x. x\<lparr>raised_inr := raised_inr x + amt, updated_at := Some now\<rparr>"
  assume amt: "1 \<le> amt" and c: "campaign (handle e s r) = update_first ?P ?f (campaign s)"
  show ?thesis
  proof
    fix x assume "x \<in> set (campaign (handle e s r))"
    then have "x \<in> set (campaign s) \<or> (\<exists>y\<in>set (campaign s). x = ?f y)"
      unfolding c by (rule update_first_set)
    with assms amt show "0 \<le> raised_inr x" by auto
  qed
qed

lemma reachable_raised_nonneg: "\<forall>c\<in>set (campaign (run empty_db ers)). 0 \<le> raised_inr c"
proof (induction ers rule: rev_induct)
  case Nil
  then show ?case by (simp add: run_def empty_db_def)
next
  case (snoc er ers)
  then show ?case unfolding run_snoc by (rule handle_keeps_raised_nonneg)
qed

text \<open>
  Claim C8. No API operation decreases the \<open>raised_inr\<close> of a campaign: on a store in which
  every \<open>raised_inr\<close> is at least 0, every request leaves every \<open>raised_inr\<close> at least 0,
  keeps every campaign in its place with its \<open>_id\<close>, and leaves its \<open>raised_inr\<close> either
  unchanged or increased by the \<open>amount_inr\<close> (at least 1) of a donation that is recorded
  in the store and references that campaign. The empty store, and with it every store
  the API reaches from it, satisfies the hypothesis (lemma \<open>reachable_raised_nonneg\<close>).
\<close>

theorem raised_inr_never_decreases:
  assumes "\<forall>c\<in>set (campaign s). 0 \<le> raised_inr c"
  shows "(\<forall>c\<in>set (campaign (handle e s r)). 0 \<le> raised_inr c) \<and>
         length (campaign s) \<le> length (campaign (handle e s r)) \<and>
         (\<forall>i<length (campaign s).
            campaign_oid (campaign (handle e s r) ! i) = campaign_oid (campaign s ! i) \<and>
            raised_inr (campaign s ! i) \<le> raised_inr (campaign (handle e s r) ! i) \<and>
            (raised_inr (campaign (handle e s r) ! i) = raised_inr (campaign s ! i) \<or>
             (\<exists>d\<in>set (donation (handle e s r)).
                 ObjectId (campaign_id d) = Some (campaign_oid (campaign s ! i)) \<and>
                 1 \<le> amount_inr d \<and>
                 raised_inr (campaign (handle e s r) ! i) =
                   raised_inr (campaign s ! i) + amount_inr d)))"
proof -
  have 1: "\<forall>c\<in>set (campaign (handle e s r)). 0 \<le> raised_inr c"
    using assms by (rule handle_keeps_raised_nonneg)
  from handle_campaign [of e s r]
  have 23: "length (campaign s) \<le> length (campaign (handle e s r)) \<and>
         (\<forall>i<length (campaign s).
            campaign_oid (campaign (handle e s r) ! i) = campaign_oid (campaign s ! i) \<and>
            raised_inr (campaign s ! i) \<le> raised_inr (campaign (handle e s r) ! i) \<and>
            (raised_inr (campaign (handle e s r) ! i) = raised_inr (campaign s ! i) \<or>
             (\<exists>d\<in>set (donation (handle e s r)).
                 ObjectId (campaign_id d) = Some (campaign_oid (campaign s ! i)) \<and>
                 1 \<le> amount_inr d \<and>
                 raised_inr (campaign (handle e s r) ! i) =
                   raised_inr (campaign s ! i) + amount_inr d)))"
  proof (elim disjE exE conjE)
    fix ds
    assume "campaign (handle e s r) = campaign s @ ds"
    then show ?thesis by (auto simp: nth_append)
  next
    fix cid amt now
    let ?P = "\<lambda>x. campaign_oid x = cid"
    let ?f = "\<lambda>x. x\<lparr>raised_inr := raised_inr x + amt, updated_at := Some now\<rparr>"
    assume amt: "1 \<le> amt"
      and c: "campaign (handle e s r) = update_first ?P ?f (campaign s)"
      and d: "\<exists>d\<in>set (donation (handle e s r)).
                ObjectId (campaign_id d) = Some cid \<and> amount_inr d = amt"
    have 2: "length (campaign s) \<le> length (campaign (handle e s r))"
      by (simp add: c)
    have 3: "campaign_oid (campaign (handle e s r) ! i) = campaign_oid (campaign s ! i) \<and>
             raised_inr (campaign s ! i) \<le> raised_inr (campaign (handle e s r) ! i) \<and>
             (raised_inr (campaign (handle e s r) ! i) = raised_inr (campaign s ! i) \<or>
               (\<exists>d\<in>set (donation (handle e s r)).
                   ObjectId (campaign_id d) = Some (campaign_oid (campaign s ! i)) \<and>
                   1 \<le> amount_inr d \<and>
                   raised_inr (campaign (handle e s r) ! i) =
                     raised_inr (campaign s ! i) + amount_inr d))"
      if i: "i < length (campaign s)" for i
      using update_first_nth [OF i, of ?P ?f] amt d unfolding c by auto
    from 2 3 show ?thesis by blast
  qed
  from 1 23 show ?thesis by blast
qed

theorem raised_inr_never_decreases_witness:
  "list_all (\<lambda>c. 0 \<le> raised_inr c) (campaign (seed empty_db)) \<and>
   list_all (\<lambda>c. 0 \<le> raised_inr c)
     (campaign (handle (bson_env 3 4) (seed empty_db) (CreateDonation (air_donation 1000)))) \<and>
   raised_inr (campaign (seed empty_db) ! 0) \<le>
     raised_inr (campaign (handle (bson_env 3 4) (seed empty_db)
                   (CreateDonation (air_donation 1000))) ! 0)"
proof -
  have h: "\<forall>c\<in>set (campaign (seed empty_db)). 0 \<le> raised_inr c"
  proof
    fix c assume "c \<in> set (campaign (seed empty_db))"
    then have "raised_inr c \<in> set (map raised_inr (campaign (seed empty_db)))" by simp
    then show "0 \<le> raised_inr c" by (simp add: seed_empty_raised)
  qed
  have l: "0 < length (campaign (seed empty_db))"
    using arg_cong [OF seed_empty_campaign_oids, of length] by simp
  from raised_inr_never_decreases [OF h, of "bson_env 3 4" "CreateDonation (air_donation 1000)"]
    h l
  show ?thesis by (simp add: list_all_iff)
qed

section \<open>The leaderboard\<close>

































end
